theory Spec2Isabelle
  imports Main "HOL-Library.AList"
begin

section \<open>Python values used by the feature handler\<close>

text \<open>
  The handler of \<^verbatim>\<open>cesium_app/handlers/feature.py\<close> reads the body of the request as a
  JSON object. The values that occur in the request shape of the specification
  (strings, integers, booleans and null) are modelled; numbers with a fraction, arrays
  and nested objects are left out of the value type.
\<close>

datatype json = JNull | JBool bool | JInt int | JStr string

text \<open>
  An exception is its class name and its \<^verbatim>\<open>str(e)\<close>. \<open>Exc\<close> is an instance of a subclass
  of \<^verbatim>\<open>Exception\<close>, \<open>BaseExc\<close> an instance of \<^verbatim>\<open>BaseException\<close> outside
  \<^verbatim>\<open>Exception\<close> (which \<^verbatim>\<open>except Exception\<close> lets through).
\<close>

datatype exn = Exc string string | BaseExc string string

fun is_Exception :: "exn \<Rightarrow> bool" where
  "is_Exception (Exc c m) = True"
| "is_Exception (BaseExc c m) = False"

fun exn_class :: "exn \<Rightarrow> string" where
  "exn_class (Exc c m) = c"
| "exn_class (BaseExc c m) = c"

fun exn_str :: "exn \<Rightarrow> string" where
  "exn_str (Exc c m) = m"
| "exn_str (BaseExc c m) = m"

text \<open>Truth value of a JSON value, as \<^verbatim>\<open>and selected\<close> tests it.\<close>

fun py_truthy :: "json \<Rightarrow> bool" where
  "py_truthy JNull = False"
| "py_truthy (JBool b) = b"
| "py_truthy (JInt i) = (i \<noteq> 0)"
| "py_truthy (JStr s) = (s \<noteq> [])"

text \<open>Decimal rendering of integers, for \<^verbatim>\<open>'{}'.format(x)\<close>.\<close>

fun str_nat :: "nat \<Rightarrow> string" where
  "str_nat n =
     (if n < 10 then [''0123456789'' ! n]
      else str_nat (n div 10) @ [''0123456789'' ! (n mod 10)])"

declare str_nat.simps [simp del]

definition str_int :: "int \<Rightarrow> string" where
  "str_int i = (if i < 0 then CHR ''-'' # str_nat (nat (- i)) else str_nat (nat i))"

fun py_str :: "json \<Rightarrow> string" where
  "py_str JNull = ''None''"
| "py_str (JBool b) = (if b then ''True'' else ''False'')"
| "py_str (JInt i) = str_int i"
| "py_str (JStr s) = s"

fun type_name :: "json \<Rightarrow> string" where
  "type_name JNull = ''NoneType''"
| "type_name (JBool b) = ''bool''"
| "type_name (JInt i) = ''int''"
| "type_name (JStr s) = ''str''"

text \<open>
  \<^verbatim>\<open>str.strip()\<close> with no argument removes leading and trailing whitespace; among the
  ASCII characters these are the space, the controls 9 to 13 and the separators 28 to 31.
\<close>

definition is_space :: "char \<Rightarrow> bool" where
  "is_space c =
     (c \<in> set [CHR '' '', CHR 0x09, CHR 0x0A, CHR 0x0B, CHR 0x0C, CHR 0x0D,
                CHR 0x1C, CHR 0x1D, CHR 0x1E, CHR 0x1F])"

definition strip :: "string \<Rightarrow> string" where
  "strip s = rev (dropWhile is_space (rev (dropWhile is_space s)))"

text \<open>
  \<^verbatim>\<open>x.strip()\<close> on a JSON value: only a string has the method, every other value raises
  \<^verbatim>\<open>AttributeError\<close>.
\<close>

fun json_strip :: "json \<Rightarrow> exn + string" where
  "json_strip (JStr s) = Inr (strip s)"
| "json_strip v =
     Inl (Exc ''AttributeError''
            ([CHR 0x27] @ type_name v @ [CHR 0x27] @ '' object has no attribute ''
             @ [CHR 0x27] @ ''strip'' @ [CHR 0x27]))"

text \<open>
  The request body is a dictionary: an association list in the order of its items, whose
  keys are distinct. \<^verbatim>\<open>data[k]\<close> raises \<^verbatim>\<open>KeyError\<close> on a missing key;
  \<^verbatim>\<open>data.get(k, d)\<close> does not.
\<close>

definition dict_item :: "(string \<times> json) list \<Rightarrow> string \<Rightarrow> exn + json" where
  "dict_item d k =
     (case map_of d k of
        None \<Rightarrow> Inl (Exc ''KeyError'' ([CHR 0x27] @ k @ [CHR 0x27]))
      | Some v \<Rightarrow> Inr v)"

definition dict_get :: "(string \<times> json) list \<Rightarrow> string \<Rightarrow> json \<Rightarrow> json" where
  "dict_get d k dflt = (case map_of d k of None \<Rightarrow> dflt | Some v \<Rightarrow> v)"

text \<open>
  \<^verbatim>\<open>os.path.join\<close> of two components (posixpath): an absolute second component
  replaces the first, otherwise one separator stands between the two.
\<close>

definition pjoin :: "string \<Rightarrow> string \<Rightarrow> string" where
  "pjoin a b =
     (if b \<noteq> [] \<and> hd b = CHR ''/'' then b
      else if a = [] \<or> last a = CHR ''/'' then a @ b
      else a @ ''/'' @ b)"

section \<open>Records of the application\<close>

text \<open>
  The ORM models (\<^verbatim>\<open>Featureset\<close>, \<^verbatim>\<open>Dataset\<close>, \<^verbatim>\<open>Project\<close>) are imported by the handler
  from \<^verbatim>\<open>..models\<close>. A feature set is the Job Record of the specification: the fields are
  those the handler passes to the constructor and those it assigns later (\<open>task_id\<close>,
  \<open>finished\<close>); \<open>fid\<close> is the primary key, absent until the row is written.
  \<open>name\<close> holds whatever JSON value the request carried under \<^verbatim>\<open>featuresetName\<close>.
\<close>

record featureset =
  fid :: "nat option"
  name :: json
  file_uri :: string
  project :: nat
  features_list :: "string list"
  custom_features_script :: "string option"
  task_id :: "string option"
  finished :: "nat option"

record dataset =
  ds_id :: int
  ds_project :: nat
  ds_files :: "string list"

record user =
  username :: string
  projects :: "nat list"

text \<open>
  Modelled from the spec: the ownership check \<^verbatim>\<open>Dataset.is_owned_by\<close> is not in the handler's
  file. The specification describes ownership as the chain principal, project, record; a
  dataset is owned by a user when its project is one of the user's projects.
\<close>

definition is_owned_by :: "dataset \<Rightarrow> user \<Rightarrow> bool" where
  "is_owned_by d u = (ds_project d \<in> set (projects u))"

section \<open>Worker pool\<close>

text \<open>
  The functions the handler hands to the pool, and the arguments of a task: literals, or
  futures of earlier tasks (a future is the position of its task in the pool's list).
\<close>

datatype pool_fn =
    Load | Label | FeaturizeSingleTs | AssembleFeatureset | ImputeFeatureset | SaveFeatureset

datatype arg =
    AStr string | AStrs "string list" | ABool bool | ANone | AFut nat | AFuts "nat list"

record task =
  t_func :: pool_fn
  t_args :: "arg list"
  t_kwargs :: "(string \<times> arg) list"
  t_key :: string

section \<open>Effects and the state of the world\<close>

datatype response = Success featureset | Error string

datatype event =
    EAdd nat
  | EMerge nat nat
  | EDelete nat
  | ECommit "(nat \<times> featureset) list"
  | EAction string string "(string \<times> string) list"
  | EPrint string
  | ESpawn nat nat
  | EWrite response

text \<open>
  \<open>heap\<close> holds the Python objects by reference. \<open>table\<close> is the committed content of the
  feature set table, \<open>datasets\<close> that of the dataset table. \<open>sess_objs\<close> and \<open>sess_del\<close> are
  the objects attached to the active session and those marked for deletion. \<open>tasks\<close> is
  what the worker pool was given so far. \<open>trace\<close> records every effect in the order in
  which it happened; a commit records the table it leaves.
\<close>

record world =
  heap :: "nat \<Rightarrow> featureset"
  next_ref :: nat
  table :: "(nat \<times> featureset) list"
  next_id :: nat
  datasets :: "dataset list"
  sess_objs :: "nat list"
  sess_del :: "nat list"
  tasks :: "task list"
  trace :: "event list"

text \<open>
  What the handler reads from its surroundings: the authenticated user, the catalog
  \<^verbatim>\<open>dask_feature_graph\<close> of the feature library (its keys), the configured features folder,
  the identifier drawn by \<^verbatim>\<open>uuid.uuid4()\<close>, the clock read by \<^verbatim>\<open>datetime.datetime.now()\<close>,
  the key the pool gives to a task, and Python's \<^verbatim>\<open>int\<close> on a string.
\<close>

record env =
  current_user :: user
  dask_feature_graph :: "string list"
  features_folder :: string
  uuid4 :: string
  now :: nat
  pool_key :: "pool_fn \<Rightarrow> nat \<Rightarrow> string"
  int_of_str :: "string \<Rightarrow> exn + int"

text \<open>\<^verbatim>\<open>int(x)\<close> on a JSON value.\<close>

fun py_int :: "env \<Rightarrow> json \<Rightarrow> exn + int" where
  "py_int env (JInt i) = Inr i"
| "py_int env (JBool b) = Inr (if b then 1 else 0)"
| "py_int env (JStr s) = int_of_str env s"
| "py_int env JNull =
     Inl (Exc ''TypeError''
       (''int() argument must be a string, a bytes-like object or a number, not ''
        @ [CHR 0x27] @ ''NoneType'' @ [CHR 0x27]))"

subsection \<open>Persistence boundary\<close>

text \<open>
  Modelled from the spec: the session (\<^verbatim>\<open>DBSession()\<close>) belongs to the persistence library,
  which is not part of the repository. The specification names the operations of the
  boundary: create, attach, commit and delete. \<open>session_add\<close> attaches a new object.
  \<open>session_merge\<close> re-attaches a record to the active session: an object that is attached
  already is returned as it is, otherwise the session takes a fresh instance that carries
  the record's state, and returns it. \<open>session_delete\<close> marks an object for deletion.
  \<open>session_commit\<close> writes every attached object to the table (an object without a
  primary key gets the next one), then removes the rows of the objects marked for
  deletion, which leave the session.
\<close>

definition attach :: "nat \<Rightarrow> nat list \<Rightarrow> nat list" where
  "attach r rs = (if r \<in> set rs then rs else rs @ [r])"

definition session_add :: "nat \<Rightarrow> world \<Rightarrow> world" where
  "session_add r w =
     w\<lparr>sess_objs := attach r (sess_objs w), trace := trace w @ [EAdd r]\<rparr>"

definition session_merge :: "nat \<Rightarrow> world \<Rightarrow> nat \<times> world" where
  "session_merge r w =
     (if r \<in> set (sess_objs w) then (r, w\<lparr>trace := trace w @ [EMerge r r]\<rparr>)
      else
        (let r' = next_ref w
         in (r', w\<lparr>heap := (heap w)(r' := heap w r),
                   next_ref := Suc r',
                   sess_objs := sess_objs w @ [r'],
                   trace := trace w @ [EMerge r r']\<rparr>)))"

definition session_delete :: "nat \<Rightarrow> world \<Rightarrow> world" where
  "session_delete r w =
     w\<lparr>sess_objs := attach r (sess_objs w),
       sess_del := sess_del w @ [r],
       trace := trace w @ [EDelete r]\<rparr>"

fun flush_obj ::
  "nat \<Rightarrow> (nat \<Rightarrow> featureset) \<times> (nat \<times> featureset) list \<times> nat
     \<Rightarrow> (nat \<Rightarrow> featureset) \<times> (nat \<times> featureset) list \<times> nat" where
  "flush_obj r (h, t, n) =
     (case fid (h r) of
        None \<Rightarrow>
          (let f = (h r)\<lparr>fid := Some n\<rparr> in (h(r := f), AList.update n f t, Suc n))
      | Some k \<Rightarrow> (h, AList.update k (h r) t, n))"

fun flush_del :: "(nat \<Rightarrow> featureset) \<Rightarrow> nat \<Rightarrow> (nat \<times> featureset) list
     \<Rightarrow> (nat \<times> featureset) list" where
  "flush_del h r t = (case fid (h r) of None \<Rightarrow> t | Some k \<Rightarrow> AList.delete k t)"

definition session_commit :: "world \<Rightarrow> world" where
  "session_commit w =
     (let (h, t, n) = fold flush_obj (sess_objs w) (heap w, table w, next_id w);
          t' = fold (flush_del h) (sess_del w) t
      in w\<lparr>heap := h, table := t', next_id := n,
           sess_objs := filter (\<lambda>r. r \<notin> set (sess_del w)) (sess_objs w),
           sess_del := [],
           trace := trace w @ [ECommit t']\<rparr>)"

subsection \<open>Notification boundary and response\<close>

text \<open>
  Modelled from the spec: \<^verbatim>\<open>self.action\<close>, \<^verbatim>\<open>self.success\<close> and \<^verbatim>\<open>self.error\<close> come from
  the base handler of the web framework layer. An action is a fire-and-forget event keyed
  by the requesting principal, carrying an action tag and a payload. The success response
  echoes the data plus a client action; the error response carries a message.
\<close>

definition action :: "env \<Rightarrow> string \<Rightarrow> (string \<times> string) list \<Rightarrow> world \<Rightarrow> world" where
  "action env tag payload w =
     w\<lparr>trace := trace w @ [EAction (username (current_user env)) tag payload]\<rparr>"

definition print :: "string \<Rightarrow> world \<Rightarrow> world" where
  "print s w = w\<lparr>trace := trace w @ [EPrint s]\<rparr>"

definition success :: "env \<Rightarrow> featureset \<Rightarrow> string \<Rightarrow> world \<Rightarrow> (exn + response) \<times> world" where
  "success env d tag w =
     (let w1 = action env tag [] w
      in (Inr (Success d), w1\<lparr>trace := trace w1 @ [EWrite (Success d)]\<rparr>))"

definition error :: "string \<Rightarrow> world \<Rightarrow> (exn + response) \<times> world" where
  "error m w = (Inr (Error m), w\<lparr>trace := trace w @ [EWrite (Error m)]\<rparr>)"

subsection \<open>Worker pool boundary\<close>

text \<open>
  Modelled from the spec: the client of the worker pool belongs to the scheduling library.
  \<^verbatim>\<open>client.submit(fn, *args, **kwargs)\<close> gives one task to the pool and returns its future;
  \<^verbatim>\<open>client.map(fn, items, **kwargs)\<close> gives one task per item and returns the list of
  their futures. Neither waits for a result: the call returns as soon as the pool has
  accepted the task. A future exposes the key the pool gave to its task.
\<close>

definition client_submit ::
  "env \<Rightarrow> pool_fn \<Rightarrow> arg list \<Rightarrow> (string \<times> arg) list \<Rightarrow> world \<Rightarrow> nat \<times> world" where
  "client_submit env fn args kwargs w =
     (let i = length (tasks w)
      in (i, w\<lparr>tasks := tasks w @
                 [\<lparr>t_func = fn, t_args = args, t_kwargs = kwargs, t_key = pool_key env fn i\<rparr>]\<rparr>))"

fun client_map ::
  "env \<Rightarrow> pool_fn \<Rightarrow> arg list \<Rightarrow> (string \<times> arg) list \<Rightarrow> world \<Rightarrow> nat list \<times> world" where
  "client_map env fn [] kwargs w = ([], w)"
| "client_map env fn (x # xs) kwargs w =
     (let (i, w1) = client_submit env fn [x] kwargs w;
          (js, w2) = client_map env fn xs kwargs w1
      in (i # js, w2))"

text \<open>\<^verbatim>\<open>future.key\<close>\<close>

definition future_key :: "world \<Rightarrow> nat \<Rightarrow> string" where
  "future_key w i = t_key (tasks w ! i)"

section \<open>The handler\<close>

text \<open>Assignment to an attribute of an object.\<close>

definition setattr :: "nat \<Rightarrow> (featureset \<Rightarrow> featureset) \<Rightarrow> world \<Rightarrow> world" where
  "setattr r f w = w\<lparr>heap := (heap w)(r := f (heap w r))\<rparr>"

text \<open>The constructor \<^verbatim>\<open>Featureset(...)\<close> makes a new object, attached to no session.\<close>

definition new_featureset :: "featureset \<Rightarrow> world \<Rightarrow> nat \<times> world" where
  "new_featureset f w =
     (next_ref w, w\<lparr>heap := (heap w)(next_ref w := f), next_ref := Suc (next_ref w)\<rparr>)"

text \<open>\<^verbatim>\<open>Query.one()\<close>: exactly one row, or an exception.\<close>

definition query_one :: "'a list \<Rightarrow> exn + 'a" where
  "query_one rows =
     (case rows of
        [] \<Rightarrow> Inl (Exc ''NoResultFound'' ''No row was found for one()'')
      | [x] \<Rightarrow> Inr x
      | _ \<Rightarrow> Inl (Exc ''MultipleResultsFound'' ''Multiple rows were found for one()''))"

definition arg_of_path :: "string option \<Rightarrow> arg" where
  "arg_of_path p = (case p of None \<Rightarrow> ANone | Some s \<Rightarrow> AStr s)"

subsection \<open>\<^verbatim>\<open>get\<close> without an identifier: the listing\<close>


subsection \<open>\<^verbatim>\<open>_await_featurization\<close>: the completion watcher\<close>

text \<open>
  \<open>future\<close> is what \<^verbatim>\<open>await future\<close> gives: the result of the terminal task, or the
  exception it raises. \<open>fset\<close> is the reference the watcher was handed. The watcher runs
  for the authenticated user. The operations of the persistence and notification
  boundaries do not raise here, so the exception of the awaited future is the only one
  the \<^verbatim>\<open>try\<close> block sees; an exception outside \<^verbatim>\<open>Exception\<close> passes through the
  \<^verbatim>\<open>except\<close> clause and leaves the watcher before any effect.
\<close>

definition await_featurization ::
  "env \<Rightarrow> exn + 'a \<Rightarrow> nat \<Rightarrow> world \<Rightarrow> (exn + unit) \<times> world" where
  "await_featurization env future fset w =
     (case future of
        Inr result \<Rightarrow>
          (let (fset', w1) = session_merge fset w;
               w2 = setattr fset' (\<lambda>f. f\<lparr>task_id := None\<rparr>) w1;
               w3 = setattr fset' (\<lambda>f. f\<lparr>finished := Some (now env)\<rparr>) w2;
               w4 = session_commit w3;
               w5 = action env ''baselayer/SHOW_NOTIFICATION''
                      [(''note'', ''Calculation of featureset '' @ [CHR 0x27]
                                  @ py_str (name (heap w4 fset')) @ [CHR 0x27]
                                  @ '' completed.'')] w4
           in (Inr (), action env ''cesium/FETCH_FEATURESETS'' [] w5))
      | Inl e \<Rightarrow>
          if is_Exception e then
            (let w1 = session_delete fset w;
                 w2 = session_commit w1;
                 w3 = action env ''baselayer/SHOW_NOTIFICATION''
                        [(''note'', ''Cannot featurize '' @ py_str (name (heap w2 fset))
                                    @ '': '' @ exn_str e),
                         (''type'', ''error'')] w2;
                 w4 = print (''Error featurizing: <class '' @ [CHR 0x27] @ exn_class e
                             @ [CHR 0x27] @ ''> '' @ exn_str e) w3
             in (Inr (), action env ''cesium/FETCH_FEATURESETS'' [] w4))
          else (Inl e, w))"

subsection \<open>\<^verbatim>\<open>post\<close>: the submission\<close>

text \<open>
  The handler runs for the authenticated user \<open>current_user env\<close>. It is written in two
  parts: \<open>post\<close> holds the checks of the request (lines 58 to 71 of the file), and
  \<open>submit_pipeline\<close> what follows them (lines 73 to 105): the record, the tasks, the
  commit, the watcher and the response.
\<close>

definition features_to_use_of :: "string list \<Rightarrow> (string \<times> json) list \<Rightarrow> string list" where
  "features_to_use_of graph data =
     [feature. (feature, selected) \<leftarrow> data, feature \<in> set graph \<and> py_truthy selected]"

definition submit_pipeline ::
  "env \<Rightarrow> json \<Rightarrow> string list \<Rightarrow> string option \<Rightarrow> dataset \<Rightarrow> world
     \<Rightarrow> (exn + response) \<times> world" where
  "submit_pipeline env featureset_name features_to_use custom_script_path dataset w =
     (let fset_path = pjoin (features_folder env) (uuid4 env @ ''_featureset.npz'');
          (fset, w1) = new_featureset
             \<lparr>fid = None, name = featureset_name, file_uri = fset_path,
              project = ds_project dataset, features_list = features_to_use,
              custom_features_script = None, task_id = None, finished = None\<rparr> w;
          w2 = session_add fset w1;
          (all_time_series, w3) = client_map env Load (map AStr (ds_files dataset)) [] w2;
          (all_labels, w4) = client_map env Label (map AFut all_time_series) [] w3;
          (all_features, w5) = client_map env FeaturizeSingleTs (map AFut all_time_series)
             [(''features_to_use'', AStrs features_to_use),
              (''custom_script_path'', arg_of_path custom_script_path),
              (''raise_exceptions'', ABool False)] w4;
          (computed_fset, w6) = client_submit env AssembleFeatureset
             [AFuts all_features, AFuts all_time_series] [] w5;
          (imputed_fset, w7) = client_submit env ImputeFeatureset
             [AFut computed_fset] [(''inplace'', ABool False)] w6;
          (future, w8) = client_submit env SaveFeatureset
             [AFut imputed_fset, AStr fset_path] [(''labels'', AFuts all_labels)] w7;
          w9 = setattr fset (\<lambda>f. f\<lparr>task_id := Some (future_key w8 future)\<rparr>) w8;
          w10 = session_commit w9;
          w11 = w10\<lparr>trace := trace w10 @ [ESpawn future fset]\<rparr>
      in success env (heap w11 fset) ''cesium/FETCH_FEATURESETS'' w11)"

definition post :: "env \<Rightarrow> (string \<times> json) list \<Rightarrow> world \<Rightarrow> (exn + response) \<times> world" where
  "post env data w =
     (let featureset_name = dict_get data ''featuresetName'' (JStr '''')
      in case dict_item data ''datasetID'' of
           Inl e \<Rightarrow> (Inl e, w)
         | Inr v \<Rightarrow>
        (case py_int env v of
           Inl e \<Rightarrow> (Inl e, w)
         | Inr dataset_id \<Rightarrow>
        (let features_to_use = features_to_use_of (dask_feature_graph env) data
         in if features_to_use = [] then error ''At least one feature must be selected.'' w
            else
        (case dict_item data ''customFeatsCode'' of
           Inl e \<Rightarrow> (Inl e, w)
         | Inr c \<Rightarrow>
        (case json_strip c of
           Inl e \<Rightarrow> (Inl e, w)
         | Inr custom_feats_code \<Rightarrow>
        (let custom_script_path = None
         in case query_one (filter (\<lambda>d. ds_id d = dataset_id) (datasets w)) of
              Inl e \<Rightarrow> (Inl e, w)
            | Inr dataset \<Rightarrow>
                if \<not> is_owned_by dataset (current_user env)
                then (Inl (Exc ''AccessError'' ''No such data set''), w)
                else submit_pipeline env featureset_name features_to_use
                       custom_script_path dataset w))))))"

section \<open>The task graph in words\<close>

text \<open>
  What \<^verbatim>\<open>client.map\<close> adds to a pool that holds \<open>n\<close> tasks: one task per item, with the
  item as its only positional argument.
\<close>

definition map_tasks ::
  "env \<Rightarrow> pool_fn \<Rightarrow> nat \<Rightarrow> arg list \<Rightarrow> (string \<times> arg) list \<Rightarrow> task list" where
  "map_tasks env fn n xs kwargs =
     map (\<lambda>(i, x). \<lparr>t_func = fn, t_args = [x], t_kwargs = kwargs, t_key = pool_key env fn i\<rparr>)
       (zip [n ..< n + length xs] xs)"

text \<open>
  The graph of a submission, written from its description rather than from the code: for a
  dataset of \<open>N\<close> files and a pool that holds \<open>n\<close> tasks, \<open>N\<close> load tasks (one per file
  location), \<open>N\<close> label tasks and \<open>N\<close> feature tasks over the loaded series, one assemble
  task over the feature outputs and the loaded series, one impute task over the assembled
  set, and one persist task over the imputed set, the path and the labels.
\<close>

definition pipeline_graph ::
  "env \<Rightarrow> nat \<Rightarrow> string list \<Rightarrow> string list \<Rightarrow> string \<Rightarrow> task list" where
  "pipeline_graph env n uris feats path =
     (let N = length uris;
          loaded = [n ..< n + N];
          labels = [n + N ..< n + N + N];
          features = [n + N + N ..< n + N + N + N];
          assemble = n + N + N + N
      in map_tasks env Load n (map AStr uris) []
         @ map_tasks env Label (n + N) (map AFut loaded) []
         @ map_tasks env FeaturizeSingleTs (n + N + N) (map AFut loaded)
             [(''features_to_use'', AStrs feats), (''custom_script_path'', ANone),
              (''raise_exceptions'', ABool False)]
         @ [\<lparr>t_func = AssembleFeatureset, t_args = [AFuts features, AFuts loaded],
             t_kwargs = [], t_key = pool_key env AssembleFeatureset assemble\<rparr>,
            \<lparr>t_func = ImputeFeatureset, t_args = [AFut assemble],
             t_kwargs = [(''inplace'', ABool False)],
             t_key = pool_key env ImputeFeatureset (Suc assemble)\<rparr>,
            \<lparr>t_func = SaveFeatureset, t_args = [AFut (Suc assemble), AStr path],
             t_kwargs = [(''labels'', AFuts labels)],
             t_key = pool_key env SaveFeatureset (Suc (Suc assemble))\<rparr>])"

section \<open>The job record at a commit\<close>



section \<open>Requests that differ in the custom feature code\<close>

text \<open>The request \<open>data\<close> with the value \<open>c\<close> under \<^verbatim>\<open>customFeatsCode\<close>, wherever the key occurs.\<close>

definition with_code :: "json \<Rightarrow> (string \<times> json) list \<Rightarrow> (string \<times> json) list" where
  "with_code c data = map (\<lambda>(k, v). if k = ''customFeatsCode'' then (k, c) else (k, v)) data"

section \<open>The feature library on the workers\<close>

text \<open>
  Modelled from the spec: the functions that the tasks name (\<^verbatim>\<open>time_series.load\<close>,
  \<^verbatim>\<open>featurize.featurize_single_ts\<close>, \<^verbatim>\<open>featurize.assemble_featureset\<close>,
  \<^verbatim>\<open>featurize.impute_featureset\<close>, \<^verbatim>\<open>featurize.save_featureset\<close>) belong to the feature
  library and run on the workers; they are not part of the repository. The specification
  says of them: a series is loaded from its storage location; the requested features are
  computed for each series, and with exception raising disabled a failure is converted to
  an in-band missing value rather than raised; a single tabular feature set is assembled
  from all per-series outputs; missing values are imputed, producing a new artifact; the
  artifact is persisted at the given path. Loading a location, computing one feature of
  one series and writing the artifact are left to the surroundings (\<open>lib\<close>), where each
  may raise. A feature value is an integer here, \<open>None\<close> the missing value.
\<close>

record timeseries =
  ts_label :: string
  ts_values :: "int list"

record lib =
  lib_load :: "string \<Rightarrow> exn + timeseries"
  lib_feature :: "string \<Rightarrow> timeseries \<Rightarrow> exn + int"
  lib_fill :: int
  lib_save :: "string \<Rightarrow> int option list list \<Rightarrow> string list \<Rightarrow> exn + unit"

datatype val =
    VSeries timeseries | VLabel string | VRow "int option list"
  | VFset "int option list list" | VNone

fun featurize_single_ts :: "lib \<Rightarrow> timeseries \<Rightarrow> string list \<Rightarrow> bool \<Rightarrow> exn + int option list" where
  "featurize_single_ts lib ts [] raise_exceptions = Inr []"
| "featurize_single_ts lib ts (f # fs) raise_exceptions =
     (case lib_feature lib f ts of
        Inl e \<Rightarrow>
          if raise_exceptions then Inl e
          else (case featurize_single_ts lib ts fs raise_exceptions of
                  Inl e' \<Rightarrow> Inl e' | Inr row \<Rightarrow> Inr (None # row))
      | Inr x \<Rightarrow>
          (case featurize_single_ts lib ts fs raise_exceptions of
             Inl e' \<Rightarrow> Inl e' | Inr row \<Rightarrow> Inr (Some x # row)))"

definition impute_featureset :: "lib \<Rightarrow> int option list list \<Rightarrow> int option list list" where
  "impute_featureset lib fset =
     map (map (\<lambda>c. case c of None \<Rightarrow> Some (lib_fill lib) | Some x \<Rightarrow> Some x)) fset"

subsection \<open>Running the tasks of the pool\<close>

text \<open>
  The arguments of a task with the futures among them replaced by results. A task whose
  dependency failed fails with the exception of the dependency.
\<close>

datatype rarg = RLit arg | RVal val | RVals "val list"

definition type_error :: exn where
  "type_error = Exc ''TypeError'' []"

definition dep :: "(exn + val) list \<Rightarrow> nat \<Rightarrow> exn + val" where
  "dep res i = (if i < length res then res ! i else Inl (Exc ''KeyError'' []))"

fun deps :: "(exn + val) list \<Rightarrow> nat list \<Rightarrow> exn + val list" where
  "deps res [] = Inr []"
| "deps res (i # js) =
     (case dep res i of
        Inl e \<Rightarrow> Inl e
      | Inr v \<Rightarrow> (case deps res js of Inl e \<Rightarrow> Inl e | Inr vs \<Rightarrow> Inr (v # vs)))"

fun resolve :: "(exn + val) list \<Rightarrow> arg \<Rightarrow> exn + rarg" where
  "resolve res (AFut i) = (case dep res i of Inl e \<Rightarrow> Inl e | Inr v \<Rightarrow> Inr (RVal v))"
| "resolve res (AFuts js) = (case deps res js of Inl e \<Rightarrow> Inl e | Inr vs \<Rightarrow> Inr (RVals vs))"
| "resolve res a = Inr (RLit a)"

fun resolve_all :: "(exn + val) list \<Rightarrow> arg list \<Rightarrow> exn + rarg list" where
  "resolve_all res [] = Inr []"
| "resolve_all res (a # as) =
     (case resolve res a of
        Inl e \<Rightarrow> Inl e
      | Inr x \<Rightarrow> (case resolve_all res as of Inl e \<Rightarrow> Inl e | Inr xs \<Rightarrow> Inr (x # xs)))"

fun rows_of :: "val list \<Rightarrow> int option list list option" where
  "rows_of [] = Some []"
| "rows_of (VRow r # vs) = map_option ((#) r) (rows_of vs)"
| "rows_of (v # vs) = None"

fun labels_of :: "val list \<Rightarrow> string list option" where
  "labels_of [] = Some []"
| "labels_of (VLabel l # vs) = map_option ((#) l) (labels_of vs)"
| "labels_of (v # vs) = None"

fun run_load :: "lib \<Rightarrow> rarg list \<Rightarrow> exn + val" where
  "run_load lib [RLit (AStr uri)] =
     (case lib_load lib uri of Inl e \<Rightarrow> Inl e | Inr s \<Rightarrow> Inr (VSeries s))"
| "run_load lib xs = Inl type_error"

fun run_label :: "rarg list \<Rightarrow> exn + val" where
  "run_label [RVal (VSeries s)] = Inr (VLabel (ts_label s))"
| "run_label xs = Inl type_error"

text \<open>Without the keyword the library raises: \<^verbatim>\<open>raise_exceptions\<close> defaults to true.\<close>

fun run_featurize :: "lib \<Rightarrow> rarg list \<Rightarrow> rarg option \<Rightarrow> rarg option \<Rightarrow> exn + val" where
  "run_featurize lib [RVal (VSeries s)] (Some (RLit (AStrs fs))) (Some (RLit (ABool b))) =
     (case featurize_single_ts lib s fs b of Inl e \<Rightarrow> Inl e | Inr row \<Rightarrow> Inr (VRow row))"
| "run_featurize lib [RVal (VSeries s)] (Some (RLit (AStrs fs))) None =
     (case featurize_single_ts lib s fs True of Inl e \<Rightarrow> Inl e | Inr row \<Rightarrow> Inr (VRow row))"
| "run_featurize lib xs fs b = Inl type_error"

fun run_assemble :: "rarg list \<Rightarrow> exn + val" where
  "run_assemble [RVals feature_rows, RVals time_series] =
     (case rows_of feature_rows of None \<Rightarrow> Inl type_error | Some rows \<Rightarrow> Inr (VFset rows))"
| "run_assemble xs = Inl type_error"

fun run_impute :: "lib \<Rightarrow> rarg list \<Rightarrow> exn + val" where
  "run_impute lib [RVal (VFset fset)] = Inr (VFset (impute_featureset lib fset))"
| "run_impute lib xs = Inl type_error"

fun run_save :: "lib \<Rightarrow> rarg list \<Rightarrow> rarg option \<Rightarrow> exn + val" where
  "run_save lib [RVal (VFset fset), RLit (AStr path)] (Some (RVals ls)) =
     (case labels_of ls of
        None \<Rightarrow> Inl type_error
      | Some labels \<Rightarrow>
          (case lib_save lib path fset labels of Inl e \<Rightarrow> Inl e | Inr u \<Rightarrow> Inr VNone))"
| "run_save lib xs ls = Inl type_error"

definition apply_fn :: "lib \<Rightarrow> pool_fn \<Rightarrow> rarg list \<Rightarrow> (string \<times> rarg) list \<Rightarrow> exn + val" where
  "apply_fn lib fn xs kw =
     (case fn of
        Load \<Rightarrow> run_load lib xs
      | Label \<Rightarrow> run_label xs
      | FeaturizeSingleTs \<Rightarrow>
          run_featurize lib xs (map_of kw ''features_to_use'') (map_of kw ''raise_exceptions'')
      | AssembleFeatureset \<Rightarrow> run_assemble xs
      | ImputeFeatureset \<Rightarrow> run_impute lib xs
      | SaveFeatureset \<Rightarrow> run_save lib xs (map_of kw ''labels''))"

definition run_task :: "lib \<Rightarrow> (exn + val) list \<Rightarrow> task \<Rightarrow> exn + val" where
  "run_task lib res t =
     (case resolve_all res (t_args t) of
        Inl e \<Rightarrow> Inl e
      | Inr xs \<Rightarrow>
          (case resolve_all res (map snd (t_kwargs t)) of
             Inl e \<Rightarrow> Inl e
           | Inr ks \<Rightarrow> apply_fn lib (t_func t) xs (zip (map fst (t_kwargs t)) ks)))"

text \<open>The results of all tasks, in the order of submission; \<open>run_pool lib ts ! i\<close> is what
  awaiting the future \<open>i\<close> gives.\<close>

definition run_pool :: "lib \<Rightarrow> task list \<Rightarrow> (exn + val) list" where
  "run_pool lib ts = fold (\<lambda>t res. res @ [run_task lib res t]) ts []"



section \<open>Observations on a run\<close>

text \<open>The effects a handler added to the trace, and the tables its commits left.\<close>

definition new_events :: "world \<Rightarrow> world \<Rightarrow> event list" where
  "new_events w w' = drop (length (trace w)) (trace w')"


section \<open>A concrete scenario\<close>

text \<open>
  The scenario of the specification: one user, a dataset of three series, the features
  \<^verbatim>\<open>amplitude\<close> and \<^verbatim>\<open>period\<close>, a feature set named \<^verbatim>\<open>X\<close>. Dataset 8 belongs to a
  project of somebody else.
\<close>

definition ex_env :: env where
  "ex_env =
     \<lparr>current_user = \<lparr>username = ''alice'', projects = [3]\<rparr>,
      dask_feature_graph = [''amplitude'', ''period'', ''skew''],
      features_folder = ''/features'',
      uuid4 = ''1b9d6bcd'',
      now = 42,
      pool_key = (\<lambda>f i. ''t-'' @ str_nat i),
      int_of_str = (\<lambda>s. if s = ''7'' then Inr 7 else Inl (Exc ''ValueError'' s))\<rparr>"

definition ex_record :: featureset where
  "ex_record =
     \<lparr>fid = Some 1, name = JStr ''X'', file_uri = ''/features/1b9d6bcd_featureset.npz'',
      project = 3, features_list = [''amplitude'', ''period''],
      custom_features_script = None, task_id = Some ''t-11'', finished = None\<rparr>"

definition blank :: featureset where
  "blank =
     \<lparr>fid = None, name = JNull, file_uri = [], project = 0, features_list = [],
      custom_features_script = None, task_id = None, finished = None\<rparr>"

definition ex_world :: world where
  "ex_world =
     \<lparr>heap = (\<lambda>r. blank), next_ref = 0, table = [], next_id = 1,
      datasets = [\<lparr>ds_id = 7, ds_project = 3, ds_files = [''a.nc'', ''b.nc'', ''c.nc'']\<rparr>,
                  \<lparr>ds_id = 8, ds_project = 4, ds_files = [''d.nc'']\<rparr>],
      sess_objs = [], sess_del = [], tasks = [], trace = []\<rparr>"


definition ex_request :: "(string \<times> json) list" where
  "ex_request =
     [(''featuresetName'', JStr ''X''), (''datasetID'', JInt 7),
      (''customFeatsCode'', JStr []), (''amplitude'', JBool True),
      (''period'', JBool True), (''skew'', JBool False), (''bogus'', JBool True)]"

text \<open>A request for the dataset of somebody else, with no feature selected.\<close>

definition ex_foreign_request :: "(string \<times> json) list" where
  "ex_foreign_request =
     [(''featuresetName'', JStr ''X''), (''datasetID'', JInt 8),
      (''customFeatsCode'', JStr []), (''amplitude'', JBool False), (''bogus'', JBool True)]"


section \<open>The session\<close>



lemma session_commit_fields:
  assumes "fold flush_obj (sess_objs w) (heap w, table w, next_id w) = (h, t, n)"
  shows "heap (session_commit w) = h"
    and "table (session_commit w) = fold (flush_del h) (sess_del w) t"
    and "trace (session_commit w) = trace w @ [ECommit (fold (flush_del h) (sess_del w) t)]"
    and "tasks (session_commit w) = tasks w"
    and "next_ref (session_commit w) = next_ref w"
    and "datasets (session_commit w) = datasets w"
  using assms by (simp_all add: session_commit_def Let_def)



lemma trace_after_delete:
  shows "trace (session_commit (session_delete fset w)) =
     trace w @ [EDelete fset, ECommit (table (session_commit (session_delete fset w)))]"
    and "tasks (session_commit (session_delete fset w)) = tasks w"
proof -
  let ?w1 = "session_delete fset w"
  obtain h t n where f: "fold flush_obj (sess_objs ?w1) (heap ?w1, table ?w1, next_id ?w1) = (h, t, n)"
    by (cases "fold flush_obj (sess_objs ?w1) (heap ?w1, table ?w1, next_id ?w1)") auto
  note sc = session_commit_fields [OF f]
  show "trace (session_commit ?w1) = trace w @ [EDelete fset, ECommit (table (session_commit ?w1))]"
    using sc(2) sc(3) by (simp add: session_delete_def)
  show "tasks (session_commit ?w1) = tasks w"
    using sc(4) by (simp add: session_delete_def)
qed


section \<open>The completion watcher\<close>

lemma watcher_failure_run:
  assumes "await_featurization env (Inl (Exc c m)) fset w = (r, w')"
  shows "r = Inr ()"
    and "table w' = table (session_commit (session_delete fset w))"
    and "tasks w' = tasks w"
    and "trace w' = trace w @
      [EDelete fset, ECommit (table w'),
       EAction (username (current_user env)) ''baselayer/SHOW_NOTIFICATION''
         [(''note'', ''Cannot featurize ''
             @ py_str (name (heap (session_commit (session_delete fset w)) fset))
             @ '': '' @ m),
          (''type'', ''error'')],
       EPrint (''Error featurizing: <class '' @ [CHR 0x27] @ c @ [CHR 0x27] @ ''> '' @ m),
       EAction (username (current_user env)) ''cesium/FETCH_FEATURESETS'' []]"
proof -
  let ?w2 = "session_commit (session_delete fset w)"
  show "r = Inr ()" using assms by (simp add: await_featurization_def Let_def)
  have w': "w' = action env ''cesium/FETCH_FEATURESETS'' []
      (print (''Error featurizing: <class '' @ [CHR 0x27] @ c @ [CHR 0x27] @ ''> '' @ m)
        (action env ''baselayer/SHOW_NOTIFICATION''
           [(''note'', ''Cannot featurize '' @ py_str (name (heap ?w2 fset)) @ '': '' @ m),
            (''type'', ''error'')] ?w2))"
    using assms by (simp add: await_featurization_def Let_def)
  show tb: "table w' = table ?w2" by (simp add: w' action_def print_def)
  show "tasks w' = tasks w" using trace_after_delete(2) by (simp add: w' action_def print_def)
  show "trace w' = trace w @
      [EDelete fset, ECommit (table w'),
       EAction (username (current_user env)) ''baselayer/SHOW_NOTIFICATION''
         [(''note'', ''Cannot featurize '' @ py_str (name (heap ?w2 fset)) @ '': '' @ m),
          (''type'', ''error'')],
       EPrint (''Error featurizing: <class '' @ [CHR 0x27] @ c @ [CHR 0x27] @ ''> '' @ m),
       EAction (username (current_user env)) ''cesium/FETCH_FEATURESETS'' []]"
    unfolding tb using trace_after_delete(1) [of fset w] by (simp add: w' action_def print_def)
qed







text \<open>
  Claim C9 says that the watcher re-attaches the record before its mutation on the
  failure path as well. On that path the first effect of the watcher is the deletion of
  the very object it was handed, and no re-attachment happens in the whole run; only the
  success path calls \<^verbatim>\<open>merge\<close>.
\<close>

theorem await_featurization_failure_skips_merge:
  "take 1 (new_events w (snd (await_featurization env (Inl (Exc c m) :: exn + 'a) fset w)))
     = [EDelete fset] \<and>
   (\<forall>a b. EMerge a b \<notin>
      set (new_events w (snd (await_featurization env (Inl (Exc c m) :: exn + 'a) fset w))))"
proof -
  obtain r w' where a: "await_featurization env (Inl (Exc c m) :: exn + 'a) fset w = (r, w')"
    by (cases "await_featurization env (Inl (Exc c m) :: exn + 'a) fset w") auto
  show ?thesis using watcher_failure_run(4) [OF a] a by (simp add: new_events_def)
qed

section \<open>The submission\<close>

lemma upt_Suc_add: "[n ..< Suc (n + k)] = n # [Suc n ..< Suc (n + k)]"
  by (rule upt_conv_Cons) simp

lemma length_map_tasks [simp]: "length (map_tasks env fn n xs kw) = length xs"
  by (simp add: map_tasks_def)

lemma map_tasks_Cons:
  "map_tasks env fn n (x # xs) kw =
     \<lparr>t_func = fn, t_args = [x], t_kwargs = kw, t_key = pool_key env fn n\<rparr>
       # map_tasks env fn (Suc n) xs kw"
  by (simp add: map_tasks_def upt_Suc_add del: upt_Suc)

lemma client_map_run:
  "client_map env fn xs kw w =
     ([length (tasks w) ..< length (tasks w) + length xs],
      w\<lparr>tasks := tasks w @ map_tasks env fn (length (tasks w)) xs kw\<rparr>)"
proof (induction xs arbitrary: w)
  case Nil
  then show ?case by (simp add: map_tasks_def)
next
  case (Cons x xs)
  show ?case
    by (simp add: Cons.IH client_submit_def Let_def map_tasks_Cons upt_Suc_add del: upt_Suc)
qed

lemma submit_pipeline_run:
  assumes "sess_objs w = []" and "sess_del w = []"
    and "submit_pipeline env nm feats None ds w = (r, w')"
    and "path = pjoin (features_folder env) (uuid4 env @ ''_featureset.npz'')"
    and "N = length (ds_files ds)" and "n = length (tasks w)"
    and "f = \<lparr>fid = Some (next_id w), name = nm, file_uri = path, project = ds_project ds,
              features_list = feats, custom_features_script = None,
              task_id = Some (pool_key env SaveFeatureset (n + N + N + N + 2)),
              finished = None\<rparr>"
  shows "r = Inr (Success f)"
    and "tasks w' = tasks w @ pipeline_graph env n (ds_files ds) feats path"
    and "table w' = AList.update (next_id w) f (table w)"
    and "trace w' = trace w @
           [EAdd (next_ref w), ECommit (table w'), ESpawn (n + N + N + N + 2) (next_ref w),
            EAction (username (current_user env)) ''cesium/FETCH_FEATURESETS'' [],
            EWrite (Success f)]"
    and "heap w' (next_ref w) = f"
proof -
  let ?f0 = "\<lparr>fid = None, name = nm, file_uri = path, project = ds_project ds,
              features_list = feats, custom_features_script = None,
              task_id = None, finished = None\<rparr>"
  define w2 where "w2 = session_add (next_ref w) (snd (new_featureset ?f0 w))"
  define w8 where "w8 = w2\<lparr>tasks := tasks w @ pipeline_graph env n (ds_files ds) feats path\<rparr>"
  define w9 where "w9 = setattr (next_ref w) (\<lambda>f. f\<lparr>task_id := Some (pool_key env SaveFeatureset (n + N + N + N + 2))\<rparr>) w8"
  have key: "future_key w8 (n + N + N + N + 2) = pool_key env SaveFeatureset (n + N + N + N + 2)"
    using assms(5,6)
    by (simp add: future_key_def w8_def pipeline_graph_def Let_def nth_append)
  have run: "submit_pipeline env nm feats None ds w =
     (let w10 = session_commit w9;
          w11 = w10\<lparr>trace := trace w10 @ [ESpawn (n + N + N + N + 2) (next_ref w)]\<rparr>
      in success env (heap w11 (next_ref w)) ''cesium/FETCH_FEATURESETS'' w11)"
    unfolding submit_pipeline_def assms(4) [symmetric]
    using key assms(5,6)
    apply (simp add: new_featureset_def client_map_run client_submit_def Let_def arg_of_path_def
        w9_def w8_def w2_def session_add_def pipeline_graph_def setattr_def)
    done
  have objs: "sess_objs w9 = [next_ref w]" and del: "sess_del w9 = []"
    and h9: "heap w9 (next_ref w) = f\<lparr>fid := None\<rparr>"
    and tb9: "table w9 = table w" and id9: "next_id w9 = next_id w"
    and tr9: "trace w9 = trace w @ [EAdd (next_ref w)]"
    and tk9: "tasks w9 = tasks w @ pipeline_graph env n (ds_files ds) feats path"
    using assms(1,2,7)
    by (simp_all add: w9_def w8_def w2_def setattr_def session_add_def new_featureset_def attach_def)
  have fl: "fold flush_obj (sess_objs w9) (heap w9, table w9, next_id w9)
      = ((heap w9)(next_ref w := f), AList.update (next_id w) f (table w), Suc (next_id w))"
    using objs h9 tb9 id9 assms(7) by (simp add: Let_def)
  note sc = session_commit_fields [OF fl]
  have res: "(r, w') = success env f ''cesium/FETCH_FEATURESETS''
      ((session_commit w9)\<lparr>trace := trace (session_commit w9) @ [ESpawn (n + N + N + N + 2) (next_ref w)]\<rparr>)"
    using assms(3) run sc(1) by (simp add: Let_def)
  show "r = Inr (Success f)" using res by (simp add: success_def Let_def)
  show "tasks w' = tasks w @ pipeline_graph env n (ds_files ds) feats path"
    using res sc(4) tk9 by (simp add: success_def Let_def action_def)
  show tb: "table w' = AList.update (next_id w) f (table w)"
    using res sc(2) del by (simp add: success_def Let_def action_def)
  show "trace w' = trace w @
           [EAdd (next_ref w), ECommit (table w'), ESpawn (n + N + N + N + 2) (next_ref w),
            EAction (username (current_user env)) ''cesium/FETCH_FEATURESETS'' [],
            EWrite (Success f)]"
    unfolding tb using res sc(3) del tr9 by (simp add: success_def Let_def action_def)
  show "heap w' (next_ref w) = f"
    using res sc(1) by (simp add: success_def Let_def action_def)
qed

lemma post_rejects_empty_selection:
  assumes "map_of data ''datasetID'' = Some v" and "py_int env v = Inr i"
    and "features_to_use_of (dask_feature_graph env) data = []"
  shows "post env data w =
     (Inr (Error ''At least one feature must be selected.''),
      w\<lparr>trace := trace w @ [EWrite (Error ''At least one feature must be selected.'')]\<rparr>)"
  using assms by (simp add: post_def dict_item_def error_def Let_def)

lemma post_valid_run:
  assumes "map_of data ''datasetID'' = Some v" and "py_int env v = Inr i"
    and "features_to_use_of (dask_feature_graph env) data \<noteq> []"
    and "map_of data ''customFeatsCode'' = Some (JStr code)"
    and "filter (\<lambda>d. ds_id d = i) (datasets w) = [ds]"
  shows "post env data w =
     (if is_owned_by ds (current_user env)
      then submit_pipeline env (dict_get data ''featuresetName'' (JStr []))
             (features_to_use_of (dask_feature_graph env) data) None ds w
      else (Inl (Exc ''AccessError'' ''No such data set''), w))"
  using assms by (simp add: post_def dict_item_def query_one_def Let_def)

lemma post_cases:
  assumes "post env data w = (res, w')"
  shows "(\<exists>e. res = Inl e \<and> w' = w)
       \<or> (res = Inr (Error ''At least one feature must be selected.'') \<and>
          w' = w\<lparr>trace := trace w @ [EWrite (Error ''At least one feature must be selected.'')]\<rparr>)
       \<or> (\<exists>ds. submit_pipeline env (dict_get data ''featuresetName'' (JStr []))
             (features_to_use_of (dask_feature_graph env) data) None ds w = (res, w'))"
  using assms
  by (auto simp: post_def error_def Let_def split: sum.splits if_splits)

lemma map_of_with_code:
  "map_of (with_code c data) k =
     (if k = ''customFeatsCode'' then map_option (\<lambda>v. c) (map_of data k) else map_of data k)"
  by (induction data) (auto simp: with_code_def)

lemma features_to_use_of_with_code:
  "''customFeatsCode'' \<notin> set graph \<Longrightarrow>
     features_to_use_of graph (with_code c data) = features_to_use_of graph data"
  by (induction data) (auto simp: with_code_def features_to_use_of_def)

lemma set_features_to_use_of:
  "set (features_to_use_of graph data) =
     {k. \<exists>v. (k, v) \<in> set data \<and> k \<in> set graph \<and> py_truthy v}"
  by (auto simp: features_to_use_of_def)

lemma post_with_code:
  assumes "''customFeatsCode'' \<notin> set (dask_feature_graph env)"
  shows "post env (with_code (JStr s1) data) w = post env (with_code (JStr s2) data) w"
proof -
  have ne: "''datasetID'' \<noteq> ''customFeatsCode''" "''featuresetName'' \<noteq> ''customFeatsCode''"
    by simp_all
  have a: "dict_item (with_code (JStr s1) data) ''datasetID'' = dict_item data ''datasetID''"
    and b: "dict_item (with_code (JStr s2) data) ''datasetID'' = dict_item data ''datasetID''"
    and c: "dict_get (with_code (JStr s1) data) ''featuresetName'' (JStr []) =
            dict_get data ''featuresetName'' (JStr [])"
    and d: "dict_get (with_code (JStr s2) data) ''featuresetName'' (JStr []) =
            dict_get data ''featuresetName'' (JStr [])"
    using ne by (simp_all add: dict_item_def dict_get_def map_of_with_code)
  have e: "\<And>s. dict_item (with_code (JStr s) data) ''customFeatsCode'' =
      (case map_of data ''customFeatsCode'' of
         None \<Rightarrow> Inl (Exc ''KeyError'' ([CHR 0x27] @ ''customFeatsCode'' @ [CHR 0x27]))
       | Some v \<Rightarrow> Inr (JStr s))"
    by (simp add: dict_item_def map_of_with_code split: option.splits)
  show ?thesis
    unfolding post_def a b c d e features_to_use_of_with_code [OF assms]
    by (simp add: Let_def split: sum.splits option.splits)
qed

lemma submit_pipeline_Success:
  "\<exists>f. fst (submit_pipeline env nm feats p ds w) = Inr (Success f)"
  by (simp add: submit_pipeline_def success_def Let_def split: prod.splits)

lemma post_Success_D:
  assumes "post env data w = (Inr (Success f), w')"
  shows "\<exists>ds. submit_pipeline env (dict_get data ''featuresetName'' (JStr []))
             (features_to_use_of (dask_feature_graph env) data) None ds w = (Inr (Success f), w')"
  using post_cases [OF assms] by auto



lemma pipeline_graph_script:
  assumes "t \<in> set (pipeline_graph env n uris feats path)" and "t_func t = FeaturizeSingleTs"
  shows "map_of (t_kwargs t) ''custom_script_path'' = Some ANone"
    and "map_of (t_kwargs t) ''raise_exceptions'' = Some (ABool False)"
  using assms by (auto simp: pipeline_graph_def map_tasks_def Let_def)

lemma ex_post:
  shows "fst (post ex_env ex_request ex_world) = Inr (Success ex_record)"
    and "table (snd (post ex_env ex_request ex_world)) = [(1, ex_record)]"
    and "tasks (snd (post ex_env ex_request ex_world)) =
           pipeline_graph ex_env 0 [''a.nc'', ''b.nc'', ''c.nc''] [''amplitude'', ''period'']
             ''/features/1b9d6bcd_featureset.npz''"
proof -
  let ?ds = "\<lparr>ds_id = 7, ds_project = 3, ds_files = [''a.nc'', ''b.nc'', ''c.nc'']\<rparr>"
  have f: "features_to_use_of (dask_feature_graph ex_env) ex_request = [''amplitude'', ''period'']"
    by (simp add: features_to_use_of_def ex_env_def ex_request_def)
  have h1: "map_of ex_request ''datasetID'' = Some (JInt 7)"
    and h3: "map_of ex_request ''customFeatsCode'' = Some (JStr [])"
    and h4: "dict_get ex_request ''featuresetName'' (JStr []) = JStr ''X''"
    by (simp_all add: ex_request_def dict_get_def)
  have h2: "py_int ex_env (JInt 7) = Inr 7" by simp
  have h5: "filter (\<lambda>d. ds_id d = 7) (datasets ex_world) = [?ds]"
    by (simp add: ex_world_def)
  have h6: "is_owned_by ?ds (current_user ex_env)"
    by (simp add: is_owned_by_def ex_env_def)
  have h7: "features_to_use_of (dask_feature_graph ex_env) ex_request \<noteq> []"
    by (simp add: f)
  have p: "post ex_env ex_request ex_world =
      submit_pipeline ex_env (JStr ''X'') [''amplitude'', ''period''] None ?ds ex_world"
    using post_valid_run [OF h1 h2 h7 h3 h5] h6 by (simp add: f h4)
  obtain r w' where s: "submit_pipeline ex_env (JStr ''X'') [''amplitude'', ''period''] None ?ds ex_world = (r, w')"
    by (cases "submit_pipeline ex_env (JStr ''X'') [''amplitude'', ''period''] None ?ds ex_world") auto
  have k: "str_nat 11 = ''11''" by (simp add: str_nat.simps)
  have path: "pjoin (features_folder ex_env) (uuid4 ex_env @ ''_featureset.npz'')
                = ''/features/1b9d6bcd_featureset.npz''"
    by (simp add: pjoin_def ex_env_def)
  have rec: "ex_record = \<lparr>fid = Some (next_id ex_world), name = JStr ''X'',
              file_uri = ''/features/1b9d6bcd_featureset.npz'', project = ds_project ?ds,
              features_list = [''amplitude'', ''period''], custom_features_script = None,
              task_id = Some (pool_key ex_env SaveFeatureset (0 + 3 + 3 + 3 + 2)),
              finished = None\<rparr>"
    by (simp add: ex_record_def ex_world_def ex_env_def k)
  note run = submit_pipeline_run [of ex_world ex_env "JStr ''X''" "[''amplitude'', ''period'']" ?ds r w'
      "''/features/1b9d6bcd_featureset.npz''" 3 0 ex_record, OF _ _ s path [symmetric] _ _ rec]
  have h: "sess_objs ex_world = []" "sess_del ex_world = []" "3 = length (ds_files ?ds)"
    "0 = length (tasks ex_world)" by (simp_all add: ex_world_def)
  show "fst (post ex_env ex_request ex_world) = Inr (Success ex_record)"
    using run(1) [OF h] p s by simp
  show "table (snd (post ex_env ex_request ex_world)) = [(1, ex_record)]"
    using run(3) [OF h] p s by (simp add: ex_world_def)
  show "tasks (snd (post ex_env ex_request ex_world)) =
           pipeline_graph ex_env 0 [''a.nc'', ''b.nc'', ''c.nc''] [''amplitude'', ''period'']
             ''/features/1b9d6bcd_featureset.npz''"
    using run(2) [OF h] p s by (simp add: ex_world_def)
qed



text \<open>
  Claim C4. The feature list that the handler uses holds exactly the keys of the request
  that are in the catalog and whose value is true; a key outside the catalog is dropped
  and is no error. On a request whose dataset identifier converts to an integer and whose
  filtered list is empty, the handler answers with the validation error and leaves
  everything else as it was: no record, nothing added to the session, no task. When the
  handler answers with success, the record carries the filtered list.
\<close>

theorem post_feature_filter:
  "set (features_to_use_of (dask_feature_graph env) data) =
     {k. \<exists>x. (k, x) \<in> set data \<and> k \<in> set (dask_feature_graph env) \<and> py_truthy x} \<and>
   (map_of data ''datasetID'' = Some v \<and> py_int env v = Inr i \<and>
    features_to_use_of (dask_feature_graph env) data = [] \<longrightarrow>
      post env data w =
        (Inr (Error ''At least one feature must be selected.''),
         w\<lparr>trace := trace w @ [EWrite (Error ''At least one feature must be selected.'')]\<rparr>)) \<and>
   (sess_objs w = [] \<and> sess_del w = [] \<and> post env data w = (Inr (Success f), w') \<longrightarrow>
      features_list f = features_to_use_of (dask_feature_graph env) data \<and>
      features_list f \<noteq> [])"
proof -
  have a: "set (features_to_use_of (dask_feature_graph env) data) =
     {k. \<exists>x. (k, x) \<in> set data \<and> k \<in> set (dask_feature_graph env) \<and> py_truthy x}"
    by (rule set_features_to_use_of)
  have b: "map_of data ''datasetID'' = Some v \<and> py_int env v = Inr i \<and>
    features_to_use_of (dask_feature_graph env) data = [] \<longrightarrow>
      post env data w =
        (Inr (Error ''At least one feature must be selected.''),
         w\<lparr>trace := trace w @ [EWrite (Error ''At least one feature must be selected.'')]\<rparr>)"
    using post_rejects_empty_selection by blast
  have c: "sess_objs w = [] \<and> sess_del w = [] \<and> post env data w = (Inr (Success f), w') \<longrightarrow>
      features_list f = features_to_use_of (dask_feature_graph env) data \<and>
      features_list f \<noteq> []"
  proof (intro impI, elim conjE)
    assume s1: "sess_objs w = []" and s2: "sess_del w = []"
      and p: "post env data w = (Inr (Success f), w')"
    from post_Success_D [OF p] obtain ds where
      s: "submit_pipeline env (dict_get data ''featuresetName'' (JStr []))
             (features_to_use_of (dask_feature_graph env) data) None ds w = (Inr (Success f), w')"
      by blast
    have "Inr (Success f) = Inr (Success
              \<lparr>fid = Some (next_id w), name = dict_get data ''featuresetName'' (JStr []),
               file_uri = pjoin (features_folder env) (uuid4 env @ ''_featureset.npz''),
               project = ds_project ds,
               features_list = features_to_use_of (dask_feature_graph env) data,
               custom_features_script = None,
               task_id = Some (pool_key env SaveFeatureset
                   (length (tasks w) + length (ds_files ds) + length (ds_files ds)
                     + length (ds_files ds) + 2)),
               finished = None\<rparr>)"
      using submit_pipeline_run(1) [OF s1 s2 s refl refl refl refl] by simp
    then have fl: "features_list f = features_to_use_of (dask_feature_graph env) data" by simp
    have "features_to_use_of (dask_feature_graph env) data \<noteq> []"
    proof
      assume e: "features_to_use_of (dask_feature_graph env) data = []"
      from p show False
        by (auto simp: post_def e error_def Let_def split: sum.splits)
    qed
    with fl show "features_list f = features_to_use_of (dask_feature_graph env) data \<and>
      features_list f \<noteq> []" by simp
  qed
  from a b c show ?thesis by blast
qed

theorem post_feature_filter_witness:
  "map_of ex_foreign_request ''datasetID'' = Some (JInt 8) \<and> py_int ex_env (JInt 8) = Inr 8 \<and>
   features_to_use_of (dask_feature_graph ex_env) ex_foreign_request = [] \<and>
   post ex_env ex_foreign_request ex_world =
     (Inr (Error ''At least one feature must be selected.''),
      ex_world\<lparr>trace := trace ex_world @
         [EWrite (Error ''At least one feature must be selected.'')]\<rparr>) \<and>
   sess_objs ex_world = [] \<and> sess_del ex_world = [] \<and>
   features_list ex_record = features_to_use_of (dask_feature_graph ex_env) ex_request"
proof -
  have h1: "map_of ex_foreign_request ''datasetID'' = Some (JInt 8)"
    by (simp add: ex_foreign_request_def)
  have h2: "py_int ex_env (JInt 8) = Inr 8" by simp
  have h3: "features_to_use_of (dask_feature_graph ex_env) ex_foreign_request = []"
    by (simp add: features_to_use_of_def ex_env_def ex_foreign_request_def)
  have h4: "sess_objs ex_world = []" and h5: "sess_del ex_world = []"
    by (simp_all add: ex_world_def)
  have h6: "post ex_env ex_request ex_world = (Inr (Success ex_record), snd (post ex_env ex_request ex_world))"
    using ex_post(1) by (cases "post ex_env ex_request ex_world") simp
  note t = post_feature_filter [of ex_env ex_foreign_request "JInt 8" 8 ex_world]
  note u = post_feature_filter [of ex_env ex_request _ _ ex_world ex_record
      "snd (post ex_env ex_request ex_world)"]
  have "post ex_env ex_foreign_request ex_world =
     (Inr (Error ''At least one feature must be selected.''),
      ex_world\<lparr>trace := trace ex_world @
         [EWrite (Error ''At least one feature must be selected.'')]\<rparr>)"
    using t h1 h2 h3 by blast
  moreover have "features_list ex_record = features_to_use_of (dask_feature_graph ex_env) ex_request"
    using u h4 h5 h6 by blast
  ultimately show ?thesis using h1 h2 h3 h4 h5 by blast
qed

text \<open>
  Claim C7, as stated: every request for a dataset that the requester does not own would
  raise the access error. The request of the scenario for dataset 8, which belongs to
  somebody else, selects no feature of the catalog: it is answered with the validation
  error, since the feature list is checked first.
\<close>

theorem post_foreign_dataset_not_denied:
  "filter (\<lambda>d. ds_id d = 8) (datasets ex_world)
     = [\<lparr>ds_id = 8, ds_project = 4, ds_files = [''d.nc'']\<rparr>] \<and>
   \<not> is_owned_by \<lparr>ds_id = 8, ds_project = 4, ds_files = [''d.nc'']\<rparr> (current_user ex_env) \<and>
   fst (post ex_env ex_foreign_request ex_world)
     = Inr (Error ''At least one feature must be selected.'') \<and>
   fst (post ex_env ex_foreign_request ex_world)
     \<noteq> Inl (Exc ''AccessError'' ''No such data set'')"
proof -
  have h1: "map_of ex_foreign_request ''datasetID'' = Some (JInt 8)"
    by (simp add: ex_foreign_request_def)
  have h2: "py_int ex_env (JInt 8) = Inr 8" by simp
  have h3: "features_to_use_of (dask_feature_graph ex_env) ex_foreign_request = []"
    by (simp add: features_to_use_of_def ex_env_def ex_foreign_request_def)
  have "fst (post ex_env ex_foreign_request ex_world)
     = Inr (Error ''At least one feature must be selected.'')"
    using post_rejects_empty_selection [OF h1 h2 h3] by simp
  then show ?thesis by (simp add: ex_world_def is_owned_by_def ex_env_def)
qed

text \<open>
  Claim C7, as amended. A request with a usable dataset identifier, a feature list that is
  not empty after filtering and a string under \<^verbatim>\<open>customFeatsCode\<close>, whose dataset exists
  and is not owned by the requester, raises the access error, and the world is as it was:
  no record was created, nothing was added to the session, no task was submitted.
\<close>

theorem post_access_denied:
  assumes "map_of data ''datasetID'' = Some v" and "py_int env v = Inr i"
    and "features_to_use_of (dask_feature_graph env) data \<noteq> []"
    and "map_of data ''customFeatsCode'' = Some (JStr code)"
    and "filter (\<lambda>d. ds_id d = i) (datasets w) = [ds]"
    and "\<not> is_owned_by ds (current_user env)"
  shows "post env data w = (Inl (Exc ''AccessError'' ''No such data set''), w)"
  using post_valid_run [OF assms(1-5)] assms(6) by simp

theorem post_access_denied_witness:
  "\<not> is_owned_by \<lparr>ds_id = 8, ds_project = 4, ds_files = [''d.nc'']\<rparr> (current_user ex_env) \<and>
   post ex_env ((''period'', JBool True) # ex_foreign_request) ex_world
     = (Inl (Exc ''AccessError'' ''No such data set''), ex_world)"
proof -
  let ?d = "(''period'', JBool True) # ex_foreign_request"
  have h1: "map_of ?d ''datasetID'' = Some (JInt 8)"
    and h4: "map_of ?d ''customFeatsCode'' = Some (JStr [])"
    by (simp_all add: ex_foreign_request_def)
  have h2: "py_int ex_env (JInt 8) = Inr 8" by simp
  have h3: "features_to_use_of (dask_feature_graph ex_env) ?d \<noteq> []"
    by (simp add: features_to_use_of_def ex_env_def ex_foreign_request_def)
  have h5: "filter (\<lambda>d. ds_id d = 8) (datasets ex_world)
     = [\<lparr>ds_id = 8, ds_project = 4, ds_files = [''d.nc'']\<rparr>]"
    by (simp add: ex_world_def)
  have h6: "\<not> is_owned_by \<lparr>ds_id = 8, ds_project = 4, ds_files = [''d.nc'']\<rparr> (current_user ex_env)"
    by (simp add: is_owned_by_def ex_env_def)
  show ?thesis using post_access_denied [OF h1 h2 h3 h4 h5 h6] h6 by simp
qed




text \<open>
  Claim C10. Two requests that differ only in the string under \<^verbatim>\<open>customFeatsCode\<close> are
  handled alike: the response and the whole resulting world are equal. The record of a
  successful submission has no custom features script, and every feature task is given
  \<^verbatim>\<open>custom_script_path=None\<close>. The catalog of the feature library is assumed not to list
  \<^verbatim>\<open>customFeatsCode\<close> as a feature.
\<close>

theorem custom_feats_code_has_no_effect:
  assumes "''customFeatsCode'' \<notin> set (dask_feature_graph env)"
  shows "post env (with_code (JStr s1) data) w = post env (with_code (JStr s2) data) w \<and>
    (sess_objs w = [] \<and> sess_del w = [] \<and> post env data w = (Inr (Success f), w') \<longrightarrow>
       custom_features_script f = None \<and>
       (\<forall>t \<in> set (drop (length (tasks w)) (tasks w')).
           t_func t = FeaturizeSingleTs \<longrightarrow>
           map_of (t_kwargs t) ''custom_script_path'' = Some ANone))"
proof -
  have a: "post env (with_code (JStr s1) data) w = post env (with_code (JStr s2) data) w"
    by (rule post_with_code [OF assms])
  have b: "sess_objs w = [] \<and> sess_del w = [] \<and> post env data w = (Inr (Success f), w') \<longrightarrow>
       custom_features_script f = None \<and>
       (\<forall>t \<in> set (drop (length (tasks w)) (tasks w')).
           t_func t = FeaturizeSingleTs \<longrightarrow>
           map_of (t_kwargs t) ''custom_script_path'' = Some ANone)"
  proof (intro impI, elim conjE)
    assume s1: "sess_objs w = []" and s2: "sess_del w = []"
      and p: "post env data w = (Inr (Success f), w')"
    from post_Success_D [OF p] obtain ds where
      s: "submit_pipeline env (dict_get data ''featuresetName'' (JStr []))
             (features_to_use_of (dask_feature_graph env) data) None ds w = (Inr (Success f), w')"
      by blast
    note run = submit_pipeline_run [OF s1 s2 s refl refl refl refl]
    have c: "custom_features_script f = None" using run(1) by simp
    have d: "drop (length (tasks w)) (tasks w') =
        pipeline_graph env (length (tasks w)) (ds_files ds)
          (features_to_use_of (dask_feature_graph env) data)
          (pjoin (features_folder env) (uuid4 env @ ''_featureset.npz''))"
      unfolding run(2) by simp
    show "custom_features_script f = None \<and>
       (\<forall>t \<in> set (drop (length (tasks w)) (tasks w')).
           t_func t = FeaturizeSingleTs \<longrightarrow>
           map_of (t_kwargs t) ''custom_script_path'' = Some ANone)"
      unfolding d using c pipeline_graph_script(1) by blast
  qed
  from a b show ?thesis by blast
qed

theorem custom_feats_code_has_no_effect_witness:
  "''customFeatsCode'' \<notin> set (dask_feature_graph ex_env) \<and>
   with_code (JStr []) ex_request = ex_request \<and>
   post ex_env (with_code (JStr ''import os'') ex_request) ex_world
     = post ex_env ex_request ex_world \<and>
   custom_features_script ex_record = None"
proof -
  have h: "''customFeatsCode'' \<notin> set (dask_feature_graph ex_env)"
    by (simp add: ex_env_def)
  have e: "with_code (JStr []) ex_request = ex_request"
    by (simp add: with_code_def ex_request_def)
  have h4: "sess_objs ex_world = []" and h5: "sess_del ex_world = []"
    by (simp_all add: ex_world_def)
  have h6: "post ex_env ex_request ex_world = (Inr (Success ex_record), snd (post ex_env ex_request ex_world))"
    using ex_post(1) by (cases "post ex_env ex_request ex_world") simp
  note t = custom_feats_code_has_no_effect [OF h, of "''import os''" ex_request ex_world "[]"
      ex_record "snd (post ex_env ex_request ex_world)"]
  have "post ex_env (with_code (JStr ''import os'') ex_request) ex_world
     = post ex_env ex_request ex_world"
    using t e by simp
  moreover have "custom_features_script ex_record = None" using t h4 h5 h6 by blast
  ultimately show ?thesis using h e by blast
qed



section \<open>Running the submitted graph\<close>









lemma length_fold_run: "length (fold (\<lambda>t res. res @ [run_task lib res t]) ts res) = length res + length ts"
  by (induction ts arbitrary: res) simp_all

lemma length_run_pool [simp]: "length (run_pool lib ts) = length ts"
  by (simp add: run_pool_def length_fold_run)













end
